theory Spec2Isabelle
  imports Main
begin

section \<open>The cart routes of \<^verbatim>\<open>backend/src/routes/cart.py\<close>\<close>

text \<open>
  The module holds four FastAPI handlers over one table of cart rows: \<^verbatim>\<open>get_cart\<close>,
  \<^verbatim>\<open>add_to_cart\<close>, \<^verbatim>\<open>update_cart\<close> and \<^verbatim>\<open>remove_from_cart\<close>. Each handler is embedded as
  a function from its arguments and the database session to its outcome (an exception
  or the returned value) and the session as the handler leaves it.
\<close>

subsection \<open>Data\<close>

text \<open>
  \<^verbatim>\<open>database.models_sql.CartItem\<close> (imported as \<^verbatim>\<open>CartItemDB\<close>): a row of the cart
  table. The handlers read and write exactly these three columns.
\<close>

record CartItemDB =
  user_id :: string
  product_id :: string
  quantity :: int

text \<open>
  \<^verbatim>\<open>models.CartItem\<close>: the request and response body. The handler writes
  \<^verbatim>\<open>item.quantity or 1\<close>, so the quantity of a body may be missing (\<^verbatim>\<open>None\<close>).
\<close>

record CartItem =
  user_id :: string
  product_id :: string
  quantity :: "int option"

text \<open>\<^verbatim>\<open>database.models_sql.User\<close>: only \<^verbatim>\<open>current_user.user_id\<close> is read.\<close>

record User =
  user_id :: string

text \<open>The keyword arguments of \<^verbatim>\<open>db_service.log_interaction\<close>, as one logged entry.\<close>

record Interaction =
  user_id :: string
  item_id :: string
  interaction_type :: string

text \<open>
  The exceptions a handler can end with: the two \<^verbatim>\<open>HTTPException\<close>s it raises itself
  (status code and detail), and the ones raised by the calls it makes.
\<close>

datatype error =
    HTTPException nat string
  | MultipleResultsFound
  | TypeError
  | NameError string
  | ResourceClosedError

definition HTTP_403_FORBIDDEN :: nat where
  "HTTP_403_FORBIDDEN = 403"

definition HTTP_404_NOT_FOUND :: nat where
  "HTTP_404_NOT_FOUND = 404"

text \<open>
  Modelled from the spec: \<^verbatim>\<open>InteractionType.CART.value\<close> is declared in \<^verbatim>\<open>models\<close>, which is
  not among the sources; the spec names the action "cart-add".
\<close>

definition InteractionType_CART_value :: string where
  "InteractionType_CART_value = ''cart-add''"

subsection \<open>The session\<close>

text \<open>
  What a handler issues on the session and on \<^verbatim>\<open>db_service\<close>, in program order. An
  attribute assignment on a loaded row (\<^verbatim>\<open>existing_item.quantity = ...\<close>) is recorded as
  \<open>Set_quantity\<close>.
\<close>

datatype effect =
    Log_interaction Interaction
  | Execute_select
  | Execute_delete
  | Set_quantity CartItemDB int
  | Add CartItemDB
  | Delete CartItemDB
  | Commit

text \<open>
  The \<^verbatim>\<open>AsyncSession\<close> of one request: \<open>committed\<close> is the table as stored,
  \<open>pending\<close> the table as the session sees it (with its changes not yet committed),
  \<open>interactions\<close> the interaction log, \<open>calls\<close> the effects issued so far.
\<close>

record AsyncSession =
  committed :: "CartItemDB list"
  pending :: "CartItemDB list"
  interactions :: "Interaction list"
  calls :: "effect list"

text \<open>
  Modelled from the spec: \<^verbatim>\<open>database.db.get_db\<close> is not among the sources. It hands each
  request a fresh session on the stored table: nothing pending, nothing issued.
\<close>

definition get_db :: "CartItemDB list \<Rightarrow> Interaction list \<Rightarrow> AsyncSession" where
  "get_db rows ilog = \<lparr>committed = rows, pending = rows, interactions = ilog, calls = []\<rparr>"

text \<open>
  Modelled from the spec: \<^verbatim>\<open>services.database_service.log_interaction\<close> is not among the
  sources. The interaction log is an append-only sink: the call appends one entry.
\<close>

definition log_interaction :: "AsyncSession \<Rightarrow> string \<Rightarrow> string \<Rightarrow> string \<Rightarrow> AsyncSession" where
  "log_interaction db actor subject action =
     (let e = \<lparr>Interaction.user_id = actor, item_id = subject, interaction_type = action\<rparr>
      in db\<lparr>interactions := interactions db @ [e], calls := calls db @ [Log_interaction e]\<rparr>)"

text \<open>The two \<^verbatim>\<open>where\<close> clauses of the module.\<close>

definition where_user :: "string \<Rightarrow> CartItemDB \<Rightarrow> bool" where
  "where_user u r = (CartItemDB.user_id r = u)"

definition where_user_product :: "string \<Rightarrow> string \<Rightarrow> CartItemDB \<Rightarrow> bool" where
  "where_user_product u p r = (CartItemDB.user_id r = u \<and> CartItemDB.product_id r = p)"

text \<open>\<^verbatim>\<open>await db.execute(select(CartItemDB).where(...))\<close>: the rows the session sees.\<close>

definition execute_select ::
  "AsyncSession \<Rightarrow> (CartItemDB \<Rightarrow> bool) \<Rightarrow> CartItemDB list \<times> AsyncSession" where
  "execute_select db cond =
     (filter cond (pending db), db\<lparr>calls := calls db @ [Execute_select]\<rparr>)"

text \<open>\<^verbatim>\<open>await db.execute(delete(CartItemDB).where(...))\<close>: a statement that returns no rows.\<close>

definition execute_delete :: "AsyncSession \<Rightarrow> (CartItemDB \<Rightarrow> bool) \<Rightarrow> AsyncSession" where
  "execute_delete db cond =
     db\<lparr>pending := filter (\<lambda>r. \<not> cond r) (pending db), calls := calls db @ [Execute_delete]\<rparr>"

text \<open>
  \<^verbatim>\<open>result.scalar_one_or_none()\<close>: \<^verbatim>\<open>None\<close> for no row, the row for one, and
  \<^verbatim>\<open>MultipleResultsFound\<close> for more.
\<close>

fun scalar_one_or_none :: "'a list \<Rightarrow> error + 'a option" where
  "scalar_one_or_none [] = Inr None"
| "scalar_one_or_none [x] = Inr (Some x)"
| "scalar_one_or_none (x # y # zs) = Inl MultipleResultsFound"

text \<open>
  A loaded row is the row of the table with its user and product: the handlers load it
  with \<open>where_user_product\<close> and \<open>scalar_one_or_none\<close>, so it is the only such row.
\<close>

definition same_row :: "CartItemDB \<Rightarrow> CartItemDB \<Rightarrow> bool" where
  "same_row a b =
     (CartItemDB.user_id a = CartItemDB.user_id b \<and> CartItemDB.product_id a = CartItemDB.product_id b)"

text \<open>\<^verbatim>\<open>existing_item.quantity = q\<close> on a loaded row.\<close>

definition set_quantity :: "AsyncSession \<Rightarrow> CartItemDB \<Rightarrow> int \<Rightarrow> AsyncSession" where
  "set_quantity db existing_item q =
     db\<lparr>pending := map (\<lambda>r. if same_row r existing_item then r\<lparr>CartItemDB.quantity := q\<rparr> else r)
                       (pending db),
        calls := calls db @ [Set_quantity existing_item q]\<rparr>"

text \<open>\<^verbatim>\<open>db.add(new_item)\<close>.\<close>

definition db_add :: "AsyncSession \<Rightarrow> CartItemDB \<Rightarrow> AsyncSession" where
  "db_add db new_item = db\<lparr>pending := pending db @ [new_item], calls := calls db @ [Add new_item]\<rparr>"

text \<open>\<^verbatim>\<open>await db.delete(existing_item)\<close>.\<close>

definition db_delete :: "AsyncSession \<Rightarrow> CartItemDB \<Rightarrow> AsyncSession" where
  "db_delete db existing_item =
     db\<lparr>pending := filter (\<lambda>r. \<not> same_row r existing_item) (pending db),
        calls := calls db @ [Delete existing_item]\<rparr>"

text \<open>\<^verbatim>\<open>await db.commit()\<close>: what the session sees becomes the stored table.\<close>

definition db_commit :: "AsyncSession \<Rightarrow> AsyncSession" where
  "db_commit db = db\<lparr>committed := pending db, calls := calls db @ [Commit]\<rparr>"

text \<open>Python's \<^verbatim>\<open>item.quantity or 1\<close>: \<^verbatim>\<open>None\<close> and \<^verbatim>\<open>0\<close> are falsy.\<close>

definition or_1 :: "int option \<Rightarrow> int" where
  "or_1 q = (case q of None \<Rightarrow> 1 | Some n \<Rightarrow> if n = 0 then 1 else n)"

text \<open>
  The names the module binds at its top level (its imports, \<^verbatim>\<open>logger\<close>, \<^verbatim>\<open>router\<close> and the
  four handlers). \<^verbatim>\<open>delete\<close> is not among them, and it is no builtin of Python.
\<close>

definition module_names :: "string list" where
  "module_names =
     [''logging'', ''List'', ''APIRouter'', ''Depends'', ''HTTPException'', ''status'',
      ''AsyncSession'', ''select'', ''get_db'', ''CartItemDB'', ''User'', ''CartItem'',
      ''InteractionType'', ''get_current_user'', ''db_service'', ''logger'', ''router'',
      ''get_cart'', ''add_to_cart'', ''update_cart'', ''remove_from_cart'']"

subsection \<open>The handlers\<close>

text \<open>The response body of \<^verbatim>\<open>get_cart\<close> for one row.\<close>

definition to_CartItem :: "CartItemDB \<Rightarrow> CartItem" where
  "to_CartItem item =
     \<lparr>CartItem.user_id = CartItemDB.user_id item,
      CartItem.product_id = CartItemDB.product_id item,
      CartItem.quantity = Some (CartItemDB.quantity item)\<rparr>"

definition get_cart ::
  "string \<Rightarrow> AsyncSession \<Rightarrow> User \<Rightarrow> (error + CartItem list) \<times> AsyncSession" where
  "get_cart user_id' db current_user =
     (if User.user_id current_user \<noteq> user_id' then
        (Inl (HTTPException HTTP_403_FORBIDDEN ''You can only access your own cart''), db)
      else
        (case execute_select db (where_user user_id') of
           (cart_items, db1) \<Rightarrow> (Inr (map to_CartItem cart_items), db1)))"

definition add_to_cart ::
  "string \<Rightarrow> CartItem \<Rightarrow> AsyncSession \<Rightarrow> User \<Rightarrow> (error + unit) \<times> AsyncSession" where
  "add_to_cart user_id' item db current_user =
     (if User.user_id current_user \<noteq> user_id' then
        (Inl (HTTPException HTTP_403_FORBIDDEN ''You can only add items to your own cart''), db)
      else
        (let db1 = log_interaction db (CartItem.user_id item) (CartItem.product_id item)
                     InteractionType_CART_value
         in case execute_select db1 (where_user_product user_id' (CartItem.product_id item)) of
              (result, db2) \<Rightarrow>
                (case scalar_one_or_none result of
                   Inl e \<Rightarrow> (Inl e, db2)
                 | Inr (Some existing_item) \<Rightarrow>
                     (Inr (),
                      db_commit
                        (set_quantity db2 existing_item
                           (CartItemDB.quantity existing_item + or_1 (CartItem.quantity item))))
                 | Inr None \<Rightarrow>
                     (Inr (),
                      db_commit
                        (db_add db2
                           \<lparr>CartItemDB.user_id = user_id',
                            CartItemDB.product_id = CartItem.product_id item,
                            CartItemDB.quantity = or_1 (CartItem.quantity item)\<rparr>)))))"

text \<open>
  In \<^verbatim>\<open>update_cart\<close> the comparison \<^verbatim>\<open>item.quantity <= 0\<close> of a missing quantity raises
  \<^verbatim>\<open>TypeError\<close>; it is evaluated only when the row exists.
\<close>

definition update_cart ::
  "string \<Rightarrow> CartItem \<Rightarrow> AsyncSession \<Rightarrow> User \<Rightarrow> (error + unit) \<times> AsyncSession" where
  "update_cart user_id' item db current_user =
     (if User.user_id current_user \<noteq> user_id' then
        (Inl (HTTPException HTTP_403_FORBIDDEN ''You can only update your own cart''), db)
      else
        (case execute_select db (where_user_product user_id' (CartItem.product_id item)) of
           (result, db1) \<Rightarrow>
             (case scalar_one_or_none result of
                Inl e \<Rightarrow> (Inl e, db1)
              | Inr (Some existing_item) \<Rightarrow>
                  (case CartItem.quantity item of
                     None \<Rightarrow> (Inl TypeError, db1)
                   | Some q \<Rightarrow>
                       if q \<le> 0 then (Inr (), db_commit (db_delete db1 existing_item))
                       else (Inr (), db_commit (set_quantity db1 existing_item q)))
              | Inr None \<Rightarrow>
                  (Inl (HTTPException HTTP_404_NOT_FOUND ''Item not found in cart''), db1))))"

text \<open>
  \<^verbatim>\<open>remove_from_cart\<close> builds its statement with \<^verbatim>\<open>delete(CartItemDB)\<close>, a name the module
  never binds: past the ownership check the handler ends with \<^verbatim>\<open>NameError\<close>. Were the name
  bound to SQLAlchemy's \<^verbatim>\<open>delete\<close>, the statement would run in the session and
  \<^verbatim>\<open>result.scalar_one_or_none()\<close> would raise on a result that returns no rows, before any
  commit. The lines after it (\<^verbatim>\<open>db.delete\<close>, \<^verbatim>\<open>db.commit\<close>, the 404) are reached on neither
  path. (The \<^verbatim>\<open>logger.info\<close> call of those lines is also not well-formed Python; logging
  calls are not part of the model.)
\<close>

definition remove_from_cart ::
  "string \<Rightarrow> CartItem \<Rightarrow> AsyncSession \<Rightarrow> User \<Rightarrow> (error + unit) \<times> AsyncSession" where
  "remove_from_cart user_id' item db current_user =
     (if User.user_id current_user \<noteq> user_id' then
        (Inl (HTTPException HTTP_403_FORBIDDEN ''You can only remove items from your own cart''),
         db)
      else if ''delete'' \<notin> set module_names then (Inl (NameError ''delete''), db)
      else
        (Inl ResourceClosedError,
         execute_delete db (where_user_product user_id' (CartItem.product_id item))))"

subsection \<open>Well-formed tables\<close>

text \<open>
  Modelled from the spec: the table's declaration (\<^verbatim>\<open>database.models_sql\<close>) is not among
  the sources; the spec keys the table by user and product, one row for each pair.
\<close>

definition row_key :: "CartItemDB \<Rightarrow> string \<times> string" where
  "row_key r = (CartItemDB.user_id r, CartItemDB.product_id r)"

definition unique_keys :: "CartItemDB list \<Rightarrow> bool" where
  "unique_keys rows = distinct (map row_key rows)"

text \<open>The row of a user and a product in a table, if there is one.\<close>

definition find_row :: "CartItemDB list \<Rightarrow> string \<Rightarrow> string \<Rightarrow> CartItemDB option" where
  "find_row rows u p = find (where_user_product u p) rows"

text \<open>
  What a request leaves behind: the stored table and the interaction log, from which the
  next request's session starts.
\<close>

definition stored :: "'a \<times> AsyncSession \<Rightarrow> CartItemDB list" where
  "stored out = committed (snd out)"

definition logged :: "'a \<times> AsyncSession \<Rightarrow> Interaction list" where
  "logged out = interactions (snd out)"

text \<open>The invariant the spec states for the stored table: every row has a quantity of at least 1.\<close>

definition positive_quantities :: "CartItemDB list \<Rightarrow> bool" where
  "positive_quantities rows = list_all (\<lambda>r. 1 \<le> CartItemDB.quantity r) rows"

section \<open>Auxiliary facts\<close>

lemmas handler_defs = get_cart_def add_to_cart_def update_cart_def remove_from_cart_def
lemmas session_defs = log_interaction_def execute_select_def execute_delete_def set_quantity_def
  db_add_def db_delete_def db_commit_def get_db_def stored_def logged_def

text \<open>In a table with unique keys the lookup of a stored row returns that row alone.\<close>

lemma filter_unique:
  "unique_keys rows \<Longrightarrow> find_row rows u p = Some r \<Longrightarrow> filter (where_user_product u p) rows = [r]"
  unfolding unique_keys_def find_row_def
proof (induction rows)
  case Nil then show ?case by simp
next
  case (Cons x xs)
  show ?case
  proof (cases "where_user_product u p x")
    case True
    with Cons.prems have xr: "x = r" by simp
    have "\<And>y. y \<in> set xs \<Longrightarrow> \<not> where_user_product u p y"
    proof -
      fix y assume "y \<in> set xs"
      then have "row_key y \<in> row_key ` set xs" by (rule imageI)
      moreover from Cons.prems(1) have "row_key x \<notin> row_key ` set xs" by simp
      ultimately have "row_key y \<noteq> row_key x" by metis
      with True show "\<not> where_user_product u p y"
        by (auto simp: where_user_product_def row_key_def)
    qed
    then have "filter (where_user_product u p) xs = []" by (simp add: filter_empty_conv)
    with True xr show ?thesis by simp
  next
    case False
    with Cons show ?thesis by simp
  qed
qed

lemma filter_absent:
  "find_row rows u p = None \<Longrightarrow> filter (where_user_product u p) rows = []"
  unfolding find_row_def by (simp add: find_None_iff filter_empty_conv)

lemma find_row_Some_where:
  "find_row rows u p = Some r \<Longrightarrow> where_user_product u p r \<and> r \<in> set rows"
  unfolding find_row_def by (auto simp: find_Some_iff)

lemma same_row_found:
  "where_user_product u p r \<Longrightarrow> same_row x r = where_user_product u p x"
  by (auto simp: same_row_def where_user_product_def)

text \<open>
  The two successful paths of \<^verbatim>\<open>add_to_cart\<close> on a fresh session, with the session each
  leaves behind.
\<close>

lemma add_to_cart_existing:
  assumes "User.user_id current_user = user_id'" and "unique_keys rows"
    and "find_row rows user_id' (CartItem.product_id item) = Some r"
  shows "add_to_cart user_id' item (get_db rows ilog) current_user =
    (Inr (),
     \<lparr>committed = map (\<lambda>x. if where_user_product user_id' (CartItem.product_id item) x
                             then x\<lparr>CartItemDB.quantity := CartItemDB.quantity r + or_1 (CartItem.quantity item)\<rparr>
                             else x) rows,
      pending = map (\<lambda>x. if where_user_product user_id' (CartItem.product_id item) x
                             then x\<lparr>CartItemDB.quantity := CartItemDB.quantity r + or_1 (CartItem.quantity item)\<rparr>
                             else x) rows,
      interactions = ilog @ [\<lparr>Interaction.user_id = CartItem.user_id item, item_id = CartItem.product_id item,
                  interaction_type = InteractionType_CART_value\<rparr>],
      calls = [Log_interaction \<lparr>Interaction.user_id = CartItem.user_id item, item_id = CartItem.product_id item,
                  interaction_type = InteractionType_CART_value\<rparr>, Execute_select,
               Set_quantity r (CartItemDB.quantity r + or_1 (CartItem.quantity item)), Commit]\<rparr>)"
proof -
  have f: "filter (where_user_product user_id' (CartItem.product_id item)) rows = [r]"
    using assms(2,3) by (rule filter_unique)
  have w: "where_user_product user_id' (CartItem.product_id item) r"
    using assms(3) by (simp add: find_row_Some_where)
  show ?thesis
    using assms(1) f by (simp add: add_to_cart_def session_defs Let_def same_row_found[OF w])
qed

lemma add_to_cart_absent:
  assumes "User.user_id current_user = user_id'"
    and "find_row rows user_id' (CartItem.product_id item) = None"
  shows "add_to_cart user_id' item (get_db rows ilog) current_user =
    (Inr (),
     \<lparr>committed = rows @ [\<lparr>CartItemDB.user_id = user_id', CartItemDB.product_id = CartItem.product_id item,
                            CartItemDB.quantity = or_1 (CartItem.quantity item)\<rparr>],
      pending = rows @ [\<lparr>CartItemDB.user_id = user_id', CartItemDB.product_id = CartItem.product_id item,
                            CartItemDB.quantity = or_1 (CartItem.quantity item)\<rparr>],
      interactions = ilog @ [\<lparr>Interaction.user_id = CartItem.user_id item, item_id = CartItem.product_id item,
                  interaction_type = InteractionType_CART_value\<rparr>],
      calls = [Log_interaction \<lparr>Interaction.user_id = CartItem.user_id item, item_id = CartItem.product_id item,
                  interaction_type = InteractionType_CART_value\<rparr>, Execute_select,
               Add \<lparr>CartItemDB.user_id = user_id', CartItemDB.product_id = CartItem.product_id item,
                            CartItemDB.quantity = or_1 (CartItem.quantity item)\<rparr>, Commit]\<rparr>)"
  using assms(1) filter_absent[OF assms(2)] by (simp add: add_to_cart_def session_defs Let_def)

lemma find_row_map_update:
  assumes "find_row rows u p = Some r"
  shows "find_row (map (\<lambda>x. if where_user_product u p x then x\<lparr>CartItemDB.quantity := q\<rparr> else x) rows) u p
         = Some (r\<lparr>CartItemDB.quantity := q\<rparr>)"
  using assms unfolding find_row_def
  by (induction rows) (auto simp: where_user_product_def)

lemma find_row_filter_out:
  "find_row (filter (\<lambda>x. \<not> where_user_product u p x) rows) u p = None"
  unfolding find_row_def by (simp add: find_None_iff)

text \<open>
  The successful paths of \<^verbatim>\<open>update_cart\<close> on a fresh session: the row is deleted for
  a quantity of zero or less and overwritten otherwise.
\<close>

lemma update_cart_existing:
  assumes "User.user_id current_user = user_id'" and "unique_keys rows"
    and "find_row rows user_id' (CartItem.product_id item) = Some r"
    and "CartItem.quantity item = Some q"
  shows "update_cart user_id' item (get_db rows ilog) current_user =
    (Inr (),
     if q \<le> 0 then
       \<lparr>committed = filter (\<lambda>x. \<not> where_user_product user_id' (CartItem.product_id item) x) rows,
        pending = filter (\<lambda>x. \<not> where_user_product user_id' (CartItem.product_id item) x) rows,
        interactions = ilog,
        calls = [Execute_select, Delete r, Commit]\<rparr>
     else
       \<lparr>committed = map (\<lambda>x. if where_user_product user_id' (CartItem.product_id item) x
                             then x\<lparr>CartItemDB.quantity := q\<rparr> else x) rows,
        pending = map (\<lambda>x. if where_user_product user_id' (CartItem.product_id item) x
                             then x\<lparr>CartItemDB.quantity := q\<rparr> else x) rows,
        interactions = ilog,
        calls = [Execute_select, Set_quantity r q, Commit]\<rparr>)"
proof -
  have f: "filter (where_user_product user_id' (CartItem.product_id item)) rows = [r]"
    using assms(2,3) by (rule filter_unique)
  have w: "where_user_product user_id' (CartItem.product_id item) r"
    using assms(3) by (simp add: find_row_Some_where)
  show ?thesis
    using assms(1,4) f by (simp add: update_cart_def session_defs same_row_found[OF w])
qed

text \<open>
  The row \<^verbatim>\<open>scalar_one_or_none\<close> returns from a lookup by user and product belongs to
  that user, and assigning its quantity leaves the rows of every other user as they were.
\<close>

lemma scalar_one_or_none_row:
  "scalar_one_or_none (filter (where_user_product u p) rows) = Inr (Some r) \<Longrightarrow>
     CartItemDB.user_id r = u"
proof -
  assume a: "scalar_one_or_none (filter (where_user_product u p) rows) = Inr (Some r)"
  then have "filter (where_user_product u p) rows = [r]"
    by (cases "filter (where_user_product u p) rows" rule: scalar_one_or_none.cases) simp_all
  then have "r \<in> set (filter (where_user_product u p) rows)" by simp
  then show ?thesis by (simp add: where_user_product_def)
qed

lemma set_quantity_others:
  "CartItemDB.user_id e = u \<Longrightarrow>
     filter (\<lambda>r. CartItemDB.user_id r \<noteq> u)
       (map (\<lambda>r. if same_row r e then r\<lparr>CartItemDB.quantity := n\<rparr> else r) rows) =
     filter (\<lambda>r. CartItemDB.user_id r \<noteq> u) rows"
  by (induction rows) (auto simp: same_row_def)

text \<open>
  Overwriting quantities with a positive one, and dropping rows, keep all quantities positive.
\<close>

lemma positive_map_set:
  "positive_quantities rows \<Longrightarrow> 1 \<le> q \<Longrightarrow>
     positive_quantities (map (\<lambda>r. if P r then r\<lparr>CartItemDB.quantity := q\<rparr> else r) rows)"
  by (induction rows) (auto simp: positive_quantities_def)

lemma positive_filter:
  "positive_quantities rows \<Longrightarrow> positive_quantities (filter P rows)"
  by (induction rows) (auto simp: positive_quantities_def)

section \<open>Ownership\<close>

text \<open>
  Claim C1. In each of the four handlers, when the user the request is authenticated as
  is not the user of the path, the handler ends with the 403 \<^verbatim>\<open>HTTPException\<close> and the
  session is exactly as it was: no statement was executed, no row was added, changed or
  deleted, nothing was committed and nothing was logged, so the stored table and the
  interaction log are unchanged.
\<close>

theorem forbidden_no_effect:
  assumes "User.user_id current_user \<noteq> user_id'"
  shows "get_cart user_id' db current_user =
           (Inl (HTTPException HTTP_403_FORBIDDEN ''You can only access your own cart''), db)
       \<and> add_to_cart user_id' item db current_user =
           (Inl (HTTPException HTTP_403_FORBIDDEN ''You can only add items to your own cart''), db)
       \<and> update_cart user_id' item db current_user =
           (Inl (HTTPException HTTP_403_FORBIDDEN ''You can only update your own cart''), db)
       \<and> remove_from_cart user_id' item db current_user =
           (Inl (HTTPException HTTP_403_FORBIDDEN
              ''You can only remove items from your own cart''), db)"
  using assms by (simp add: handler_defs)

theorem forbidden_no_effect_witness:
  "User.user_id \<lparr>User.user_id = ''mallory''\<rparr> \<noteq> ''alice''
   \<and> get_cart ''alice''
        (get_db [\<lparr>CartItemDB.user_id = ''alice'', product_id = ''sku1'', quantity = 2\<rparr>] [])
        \<lparr>User.user_id = ''mallory''\<rparr> =
       (Inl (HTTPException HTTP_403_FORBIDDEN ''You can only access your own cart''),
        get_db [\<lparr>CartItemDB.user_id = ''alice'', product_id = ''sku1'', quantity = 2\<rparr>] [])
   \<and> stored (add_to_cart ''alice''
        \<lparr>CartItem.user_id = ''alice'', product_id = ''sku1'', quantity = Some 1\<rparr>
        (get_db [\<lparr>CartItemDB.user_id = ''alice'', product_id = ''sku1'', quantity = 2\<rparr>] [])
        \<lparr>User.user_id = ''mallory''\<rparr>) =
       [\<lparr>CartItemDB.user_id = ''alice'', product_id = ''sku1'', quantity = 2\<rparr>]
   \<and> stored (update_cart ''alice''
        \<lparr>CartItem.user_id = ''alice'', product_id = ''sku1'', quantity = Some 0\<rparr>
        (get_db [\<lparr>CartItemDB.user_id = ''alice'', product_id = ''sku1'', quantity = 2\<rparr>] [])
        \<lparr>User.user_id = ''mallory''\<rparr>) =
       [\<lparr>CartItemDB.user_id = ''alice'', product_id = ''sku1'', quantity = 2\<rparr>]
   \<and> fst (remove_from_cart ''alice''
        \<lparr>CartItem.user_id = ''alice'', product_id = ''sku1'', quantity = Some 1\<rparr>
        (get_db [\<lparr>CartItemDB.user_id = ''alice'', product_id = ''sku1'', quantity = 2\<rparr>] [])
        \<lparr>User.user_id = ''mallory''\<rparr>) =
       Inl (HTTPException HTTP_403_FORBIDDEN ''You can only remove items from your own cart'')"
proof -
  have h: "User.user_id \<lparr>User.user_id = ''mallory''\<rparr> \<noteq> ''alice''" by simp
  show ?thesis
    using h forbidden_no_effect [OF h] by (simp add: stored_def get_db_def)
qed

section \<open>Listing a cart\<close>

text \<open>
  Claim C8. For the owner of the cart, \<^verbatim>\<open>get_cart\<close> returns one \<^verbatim>\<open>CartItem\<close> for each
  stored row of the path's user, in the table's order and with the row's user, product
  and quantity, and no other; it returns the empty list (not an error) when the user
  has no rows. The stored table, the session's pending view and the interaction log
  are unchanged: the only thing issued is the select.
\<close>

theorem get_cart_lists_own_rows:
  assumes "User.user_id current_user = user_id'"
  shows "fst (get_cart user_id' (get_db rows ilog) current_user) =
           Inr (map to_CartItem (filter (where_user user_id') rows))
       \<and> ((\<forall>r \<in> set rows. CartItemDB.user_id r \<noteq> user_id') \<longrightarrow>
            fst (get_cart user_id' (get_db rows ilog) current_user) = Inr [])
       \<and> stored (get_cart user_id' (get_db rows ilog) current_user) = rows
       \<and> pending (snd (get_cart user_id' (get_db rows ilog) current_user)) = rows
       \<and> logged (get_cart user_id' (get_db rows ilog) current_user) = ilog
       \<and> calls (snd (get_cart user_id' (get_db rows ilog) current_user)) = [Execute_select]"
  using assms
  by (simp add: get_cart_def session_defs where_user_def filter_empty_conv)

theorem get_cart_lists_own_rows_witness:
  "User.user_id \<lparr>User.user_id = ''alice''\<rparr> = ''alice''
   \<and> fst (get_cart ''alice''
        (get_db [\<lparr>CartItemDB.user_id = ''alice'', product_id = ''sku1'', quantity = 2\<rparr>,
                 \<lparr>CartItemDB.user_id = ''bob'', product_id = ''sku1'', quantity = 7\<rparr>,
                 \<lparr>CartItemDB.user_id = ''alice'', product_id = ''sku2'', quantity = 1\<rparr>] [])
        \<lparr>User.user_id = ''alice''\<rparr>) =
      Inr [\<lparr>CartItem.user_id = ''alice'', product_id = ''sku1'', quantity = Some 2\<rparr>,
           \<lparr>CartItem.user_id = ''alice'', product_id = ''sku2'', quantity = Some 1\<rparr>]
   \<and> fst (get_cart ''alice''
        (get_db [\<lparr>CartItemDB.user_id = ''bob'', product_id = ''sku1'', quantity = 7\<rparr>] [])
        \<lparr>User.user_id = ''alice''\<rparr>) = Inr []"
proof -
  have h: "User.user_id \<lparr>User.user_id = ''alice''\<rparr> = ''alice''" by simp
  show ?thesis
    using h
      get_cart_lists_own_rows [OF h, of
        "[\<lparr>CartItemDB.user_id = ''alice'', product_id = ''sku1'', quantity = 2\<rparr>,
          \<lparr>CartItemDB.user_id = ''bob'', product_id = ''sku1'', quantity = 7\<rparr>,
          \<lparr>CartItemDB.user_id = ''alice'', product_id = ''sku2'', quantity = 1\<rparr>]" "[]"]
      get_cart_lists_own_rows [OF h, of
        "[\<lparr>CartItemDB.user_id = ''bob'', product_id = ''sku1'', quantity = 7\<rparr>]" "[]"]
    by (simp add: where_user_def to_CartItem_def)
qed

section \<open>Adding to a cart\<close>

text \<open>
  Claim C4. For the owner of the cart and a table with one row for each user and
  product: when the row of the path's user and the item's product exists,
  \<^verbatim>\<open>add_to_cart\<close> succeeds and adds \<^verbatim>\<open>item.quantity or 1\<close> to its quantity, leaving the
  other rows as they were; when it does not exist, a row with that quantity is appended.
  \<^verbatim>\<open>item.quantity or 1\<close> is 1 for a missing quantity and for 0, and the quantity itself
  otherwise. Adding a quantity of 2 twice, starting from the empty table, leaves the
  single row with quantity 4.
\<close>

theorem add_to_cart_accumulates:
  assumes "User.user_id current_user = user_id'" and "unique_keys rows"
  shows "(\<forall>r. find_row rows user_id' (CartItem.product_id item) = Some r \<longrightarrow>
            fst (add_to_cart user_id' item (get_db rows ilog) current_user) = Inr ()
          \<and> stored (add_to_cart user_id' item (get_db rows ilog) current_user) =
              map (\<lambda>x. if where_user_product user_id' (CartItem.product_id item) x
                        then x\<lparr>CartItemDB.quantity :=
                                 CartItemDB.quantity r + or_1 (CartItem.quantity item)\<rparr>
                        else x) rows
          \<and> find_row (stored (add_to_cart user_id' item (get_db rows ilog) current_user))
                user_id' (CartItem.product_id item) =
              Some (r\<lparr>CartItemDB.quantity :=
                        CartItemDB.quantity r + or_1 (CartItem.quantity item)\<rparr>))
       \<and> (find_row rows user_id' (CartItem.product_id item) = None \<longrightarrow>
            fst (add_to_cart user_id' item (get_db rows ilog) current_user) = Inr ()
          \<and> stored (add_to_cart user_id' item (get_db rows ilog) current_user) =
              rows @ [\<lparr>CartItemDB.user_id = user_id',
                       product_id = CartItem.product_id item,
                       quantity = or_1 (CartItem.quantity item)\<rparr>])
       \<and> or_1 None = 1 \<and> or_1 (Some 0) = 1 \<and> (\<forall>n. n \<noteq> 0 \<longrightarrow> or_1 (Some n) = n)
       \<and> (CartItem.quantity item = Some 2 \<longrightarrow>
            stored (add_to_cart user_id' item
                      (get_db (stored (add_to_cart user_id' item (get_db [] ilog) current_user))
                              (logged (add_to_cart user_id' item (get_db [] ilog) current_user)))
                      current_user) =
              [\<lparr>CartItemDB.user_id = user_id', product_id = CartItem.product_id item,
                quantity = 4\<rparr>])"
  (is "?existing \<and> ?absent \<and> ?none \<and> ?zero \<and> ?other \<and> ?twice")
proof -
  let ?p = "CartItem.product_id item"
  have existing: ?existing
  proof (intro allI impI)
    fix r assume f: "find_row rows user_id' ?p = Some r"
    note add = add_to_cart_existing [OF assms f, of ilog]
    have "fst (add_to_cart user_id' item (get_db rows ilog) current_user) = Inr ()"
      by (simp add: add)
    moreover have "stored (add_to_cart user_id' item (get_db rows ilog) current_user) =
        map (\<lambda>x. if where_user_product user_id' ?p x
                  then x\<lparr>CartItemDB.quantity :=
                           CartItemDB.quantity r + or_1 (CartItem.quantity item)\<rparr>
                  else x) rows"
      by (simp add: add stored_def)
    moreover have "find_row (stored (add_to_cart user_id' item (get_db rows ilog) current_user))
          user_id' ?p =
        Some (r\<lparr>CartItemDB.quantity := CartItemDB.quantity r + or_1 (CartItem.quantity item)\<rparr>)"
      by (simp add: add stored_def find_row_map_update [OF f])
    ultimately show "fst (add_to_cart user_id' item (get_db rows ilog) current_user) = Inr ()
        \<and> stored (add_to_cart user_id' item (get_db rows ilog) current_user) =
            map (\<lambda>x. if where_user_product user_id' ?p x
                      then x\<lparr>CartItemDB.quantity :=
                               CartItemDB.quantity r + or_1 (CartItem.quantity item)\<rparr>
                      else x) rows
        \<and> find_row (stored (add_to_cart user_id' item (get_db rows ilog) current_user))
              user_id' ?p =
            Some (r\<lparr>CartItemDB.quantity :=
                      CartItemDB.quantity r + or_1 (CartItem.quantity item)\<rparr>)"
      by blast
  qed
  have absent: ?absent
    by (simp add: add_to_cart_absent [OF assms(1)] stored_def)
  have none: ?none and zero: ?zero and other: ?other
    by (simp_all add: or_1_def)
  have twice: ?twice
  proof
    assume q: "CartItem.quantity item = Some 2"
    let ?two = "\<lparr>CartItemDB.user_id = user_id', product_id = ?p, quantity = 2\<rparr>"
    have e: "find_row [] user_id' ?p = None" by (simp add: find_row_def)
    have first: "stored (add_to_cart user_id' item (get_db [] ilog) current_user) = [?two]"
      using q by (simp add: add_to_cart_absent [OF assms(1) e] stored_def or_1_def)
    have u: "unique_keys [?two]" by (simp add: unique_keys_def)
    have f: "find_row [?two] user_id' ?p = Some ?two"
      by (simp add: find_row_def where_user_product_def)
    have second: "stored (add_to_cart user_id' item (get_db [?two] lg) current_user) =
        [\<lparr>CartItemDB.user_id = user_id', product_id = ?p, quantity = 4\<rparr>]" for lg
      using q
      by (simp add: add_to_cart_existing [OF assms(1) u f] stored_def or_1_def
            where_user_product_def)
    show "stored (add_to_cart user_id' item
            (get_db (stored (add_to_cart user_id' item (get_db [] ilog) current_user))
                    (logged (add_to_cart user_id' item (get_db [] ilog) current_user)))
            current_user) =
          [\<lparr>CartItemDB.user_id = user_id', product_id = ?p, quantity = 4\<rparr>]"
      by (simp only: first second)
  qed
  from existing absent none zero other twice show ?thesis by blast
qed

theorem add_to_cart_accumulates_witness:
  "User.user_id \<lparr>User.user_id = ''alice''\<rparr> = ''alice''
   \<and> unique_keys [\<lparr>CartItemDB.user_id = ''alice'', product_id = ''sku1'', quantity = 2\<rparr>]
   \<and> find_row [\<lparr>CartItemDB.user_id = ''alice'', product_id = ''sku1'', quantity = 2\<rparr>]
        ''alice'' ''sku1'' =
      Some \<lparr>CartItemDB.user_id = ''alice'', product_id = ''sku1'', quantity = 2\<rparr>
   \<and> stored (add_to_cart ''alice''
        \<lparr>CartItem.user_id = ''alice'', product_id = ''sku1'', quantity = Some 2\<rparr>
        (get_db [\<lparr>CartItemDB.user_id = ''alice'', product_id = ''sku1'', quantity = 2\<rparr>] [])
        \<lparr>User.user_id = ''alice''\<rparr>) =
      [\<lparr>CartItemDB.user_id = ''alice'', product_id = ''sku1'', quantity = 4\<rparr>]
   \<and> unique_keys []
   \<and> find_row [] ''alice'' ''sku1'' = None
   \<and> stored (add_to_cart ''alice''
        \<lparr>CartItem.user_id = ''alice'', product_id = ''sku1'', quantity = None\<rparr>
        (get_db [] []) \<lparr>User.user_id = ''alice''\<rparr>) =
      [\<lparr>CartItemDB.user_id = ''alice'', product_id = ''sku1'', quantity = 1\<rparr>]"
proof -
  let ?alice = "\<lparr>User.user_id = ''alice''\<rparr>"
  let ?row = "\<lparr>CartItemDB.user_id = ''alice'', product_id = ''sku1'', quantity = 2\<rparr>"
  have a: "User.user_id ?alice = ''alice''" by simp
  have u1: "unique_keys [?row]" by (simp add: unique_keys_def)
  have f1: "find_row [?row] ''alice'' ''sku1'' = Some ?row"
    by (simp add: find_row_def where_user_product_def)
  have u0: "unique_keys []" by (simp add: unique_keys_def)
  have f0: "find_row [] ''alice'' ''sku1'' = None" by (simp add: find_row_def)
  show ?thesis
    using a u1 f1 u0 f0
      add_to_cart_accumulates [OF a u1, of
        "\<lparr>CartItem.user_id = ''alice'', product_id = ''sku1'', quantity = Some 2\<rparr>" "[]"]
      add_to_cart_accumulates [OF a u0, of
        "\<lparr>CartItem.user_id = ''alice'', product_id = ''sku1'', quantity = None\<rparr>" "[]"]
    by (simp add: where_user_product_def)
qed

text \<open>
  Claim C7. For the owner of the cart, whatever the session holds (the row present,
  absent, or present more than once, so that the lookup raises), \<^verbatim>\<open>add_to_cart\<close> appends
  to the interaction log one entry whose user is \<^verbatim>\<open>item.user_id\<close> and whose item is
  \<^verbatim>\<open>item.product_id\<close>. The log call is the first thing the handler issues: the select
  follows it, and the assignment or the add and the commit, when there are any, come
  after both.
\<close>

theorem add_to_cart_logs_first:
  assumes "User.user_id current_user = user_id'"
  shows "logged (add_to_cart user_id' item db current_user) =
           interactions db @
             [\<lparr>Interaction.user_id = CartItem.user_id item, item_id = CartItem.product_id item,
               interaction_type = InteractionType_CART_value\<rparr>]
       \<and> (\<exists>rest. calls (snd (add_to_cart user_id' item db current_user)) =
             calls db @
               Log_interaction
                 \<lparr>Interaction.user_id = CartItem.user_id item, item_id = CartItem.product_id item,
                   interaction_type = InteractionType_CART_value\<rparr> # Execute_select # rest
             \<and> (rest = [] \<or> (\<exists>r q. rest = [Set_quantity r q, Commit])
                 \<or> (\<exists>r. rest = [Add r, Commit])))"
  using assms
  by (simp add: add_to_cart_def session_defs Let_def split: sum.splits option.splits)

theorem add_to_cart_logs_first_witness:
  "User.user_id \<lparr>User.user_id = ''alice''\<rparr> = ''alice''
   \<and> logged (add_to_cart ''alice''
        \<lparr>CartItem.user_id = ''alice'', product_id = ''sku1'', quantity = Some 1\<rparr>
        (get_db [\<lparr>CartItemDB.user_id = ''alice'', product_id = ''sku1'', quantity = 5\<rparr>,
                 \<lparr>CartItemDB.user_id = ''alice'', product_id = ''sku1'', quantity = 6\<rparr>] [])
        \<lparr>User.user_id = ''alice''\<rparr>) =
      [\<lparr>Interaction.user_id = ''alice'', item_id = ''sku1'',
        interaction_type = InteractionType_CART_value\<rparr>]"
proof -
  have a: "User.user_id \<lparr>User.user_id = ''alice''\<rparr> = ''alice''" by simp
  show ?thesis
    using a
      add_to_cart_logs_first [OF a, of
        "\<lparr>CartItem.user_id = ''alice'', product_id = ''sku1'', quantity = Some 1\<rparr>"
        "get_db [\<lparr>CartItemDB.user_id = ''alice'', product_id = ''sku1'', quantity = 5\<rparr>,
                 \<lparr>CartItemDB.user_id = ''alice'', product_id = ''sku1'', quantity = 6\<rparr>] []"]
    by (simp add: get_db_def)
qed

text \<open>
  Claim C9. For the owner of the cart, the user named in the body plays no part in what
  \<^verbatim>\<open>add_to_cart\<close> does to the table: outcome and stored table are the same for every
  body user. The rows of every user other than the path's are left as they were; the
  row that is created carries the path's user, and the row that is incremented is the
  one of the path's user. The logged entry carries the body's user. So a request on
  alice's cart whose body names bob changes alice's cart and logs bob.
\<close>

theorem add_to_cart_keyed_by_path_user:
  assumes "User.user_id current_user = user_id'"
  shows "fst (add_to_cart user_id' (item\<lparr>CartItem.user_id := body_user\<rparr>) (get_db rows ilog)
               current_user) =
           fst (add_to_cart user_id' item (get_db rows ilog) current_user)
       \<and> stored (add_to_cart user_id' (item\<lparr>CartItem.user_id := body_user\<rparr>) (get_db rows ilog)
               current_user) =
           stored (add_to_cart user_id' item (get_db rows ilog) current_user)
       \<and> filter (\<lambda>r. CartItemDB.user_id r \<noteq> user_id')
            (stored (add_to_cart user_id' item (get_db rows ilog) current_user)) =
           filter (\<lambda>r. CartItemDB.user_id r \<noteq> user_id') rows
       \<and> (find_row rows user_id' (CartItem.product_id item) = None \<longrightarrow>
            stored (add_to_cart user_id' item (get_db rows ilog) current_user) =
              rows @ [\<lparr>CartItemDB.user_id = user_id',
                       product_id = CartItem.product_id item,
                       quantity = or_1 (CartItem.quantity item)\<rparr>])
       \<and> (\<forall>r. unique_keys rows \<and> find_row rows user_id' (CartItem.product_id item) = Some r \<longrightarrow>
            find_row (stored (add_to_cart user_id' item (get_db rows ilog) current_user))
              user_id' (CartItem.product_id item) =
            Some (r\<lparr>CartItemDB.quantity :=
                      CartItemDB.quantity r + or_1 (CartItem.quantity item)\<rparr>))
       \<and> logged (add_to_cart user_id' item (get_db rows ilog) current_user) =
           ilog @ [\<lparr>Interaction.user_id = CartItem.user_id item,
                    item_id = CartItem.product_id item,
                    interaction_type = InteractionType_CART_value\<rparr>]"
  (is "?same_out \<and> ?same_store \<and> ?others \<and> ?created \<and> ?incremented \<and> ?actor")
proof -
  have same_out: ?same_out
    using assms by (simp add: add_to_cart_def session_defs Let_def split: sum.splits option.splits)
  have same_store: ?same_store
    using assms by (simp add: add_to_cart_def session_defs Let_def split: sum.splits option.splits)
  have others: ?others
  proof (cases "scalar_one_or_none
      (filter (where_user_product user_id' (CartItem.product_id item)) rows)")
    case (Inl e)
    with assms show ?thesis by (simp add: add_to_cart_def session_defs Let_def)
  next
    case (Inr found)
    show ?thesis
    proof (cases found)
      case None
      with Inr assms show ?thesis by (simp add: add_to_cart_def session_defs Let_def)
    next
      case (Some existing_item)
      with Inr have "CartItemDB.user_id existing_item = user_id'"
        by (simp add: scalar_one_or_none_row)
      then have "filter (\<lambda>r. CartItemDB.user_id r \<noteq> user_id')
            (map (\<lambda>r. if same_row r existing_item then r\<lparr>CartItemDB.quantity := n\<rparr> else r)
               rows) =
          filter (\<lambda>r. CartItemDB.user_id r \<noteq> user_id') rows" for n
        by (rule set_quantity_others)
      with Some Inr assms show ?thesis by (simp add: add_to_cart_def session_defs Let_def)
    qed
  qed
  have created: ?created
    by (simp add: add_to_cart_absent [OF assms] stored_def)
  have incremented: ?incremented
  proof (intro allI impI)
    fix r
    assume "unique_keys rows \<and> find_row rows user_id' (CartItem.product_id item) = Some r"
    then have u: "unique_keys rows"
      and f: "find_row rows user_id' (CartItem.product_id item) = Some r" by simp_all
    show "find_row (stored (add_to_cart user_id' item (get_db rows ilog) current_user))
              user_id' (CartItem.product_id item) =
            Some (r\<lparr>CartItemDB.quantity :=
                      CartItemDB.quantity r + or_1 (CartItem.quantity item)\<rparr>)"
      by (simp add: add_to_cart_existing [OF assms u f] stored_def find_row_map_update [OF f])
  qed
  have actor: ?actor
    using assms by (simp add: add_to_cart_def session_defs Let_def split: sum.splits option.splits)
  from same_out same_store others created incremented actor show ?thesis by blast
qed

theorem add_to_cart_keyed_by_path_user_witness:
  "User.user_id \<lparr>User.user_id = ''alice''\<rparr> = ''alice''
   \<and> CartItem.user_id \<lparr>CartItem.user_id = ''bob'', product_id = ''sku1'', quantity = Some 1\<rparr>
        \<noteq> ''alice''
   \<and> find_row [\<lparr>CartItemDB.user_id = ''bob'', product_id = ''sku1'', quantity = 5\<rparr>]
        ''alice'' ''sku1'' = None
   \<and> stored (add_to_cart ''alice''
        \<lparr>CartItem.user_id = ''bob'', product_id = ''sku1'', quantity = Some 1\<rparr>
        (get_db [\<lparr>CartItemDB.user_id = ''bob'', product_id = ''sku1'', quantity = 5\<rparr>] [])
        \<lparr>User.user_id = ''alice''\<rparr>) =
      [\<lparr>CartItemDB.user_id = ''bob'', product_id = ''sku1'', quantity = 5\<rparr>,
       \<lparr>CartItemDB.user_id = ''alice'', product_id = ''sku1'', quantity = 1\<rparr>]
   \<and> logged (add_to_cart ''alice''
        \<lparr>CartItem.user_id = ''bob'', product_id = ''sku1'', quantity = Some 1\<rparr>
        (get_db [\<lparr>CartItemDB.user_id = ''bob'', product_id = ''sku1'', quantity = 5\<rparr>] [])
        \<lparr>User.user_id = ''alice''\<rparr>) =
      [\<lparr>Interaction.user_id = ''bob'', item_id = ''sku1'',
        interaction_type = InteractionType_CART_value\<rparr>]"
proof -
  let ?row = "\<lparr>CartItemDB.user_id = ''bob'', product_id = ''sku1'', quantity = 5\<rparr>"
  let ?item = "\<lparr>CartItem.user_id = ''bob'', product_id = ''sku1'', quantity = Some 1\<rparr>"
  have a: "User.user_id \<lparr>User.user_id = ''alice''\<rparr> = ''alice''" by simp
  have f: "find_row [?row] ''alice'' ''sku1'' = None"
    by (simp add: find_row_def where_user_product_def)
  show ?thesis
    using a f add_to_cart_keyed_by_path_user [OF a, where item = ?item and rows = "[?row]" and ilog = "[]"]
    by (simp add: or_1_def)
qed

section \<open>Updating a cart\<close>

text \<open>
  Claim C5. For the owner of the cart, a table with one row for each user and product,
  and an existing row of the path's user and the item's product: \<^verbatim>\<open>update_cart\<close>
  succeeds; for a quantity above 0 the stored quantity of that row becomes the item's
  quantity (5 updated with 3 ends at 3); for a quantity of 0 or less the row is
  deleted, and the next \<^verbatim>\<open>get_cart\<close> of that user lists no item of that product.
\<close>

theorem update_cart_sets_or_deletes:
  assumes "User.user_id current_user = user_id'" and "unique_keys rows"
    and "find_row rows user_id' (CartItem.product_id item) = Some r"
    and "CartItem.quantity item = Some q"
  shows "fst (update_cart user_id' item (get_db rows ilog) current_user) = Inr ()
       \<and> (0 < q \<longrightarrow>
            stored (update_cart user_id' item (get_db rows ilog) current_user) =
              map (\<lambda>x. if where_user_product user_id' (CartItem.product_id item) x
                        then x\<lparr>CartItemDB.quantity := q\<rparr> else x) rows
          \<and> find_row (stored (update_cart user_id' item (get_db rows ilog) current_user))
                user_id' (CartItem.product_id item) = Some (r\<lparr>CartItemDB.quantity := q\<rparr>))
       \<and> (q \<le> 0 \<longrightarrow>
            stored (update_cart user_id' item (get_db rows ilog) current_user) =
              filter (\<lambda>x. \<not> where_user_product user_id' (CartItem.product_id item) x) rows
          \<and> find_row (stored (update_cart user_id' item (get_db rows ilog) current_user))
                user_id' (CartItem.product_id item) = None
          \<and> (\<exists>cart.
                fst (get_cart user_id'
                       (get_db (stored (update_cart user_id' item (get_db rows ilog) current_user))
                               (logged (update_cart user_id' item (get_db rows ilog) current_user)))
                       current_user) = Inr cart
              \<and> CartItem.product_id item \<notin> CartItem.product_id ` set cart))"
  (is "?ok \<and> ?set \<and> ?del")
proof -
  note upd = update_cart_existing [OF assms, of ilog]
  have ok: ?ok by (simp add: upd)
  have set: ?set
    by (simp add: upd stored_def find_row_map_update [OF assms(3)])
  have del: ?del
  proof
    assume neg: "q \<le> 0"
    let ?rows' = "filter (\<lambda>x. \<not> where_user_product user_id' (CartItem.product_id item) x) rows"
    have st: "stored (update_cart user_id' item (get_db rows ilog) current_user) = ?rows'"
      using neg by (simp add: upd stored_def)
    have fr: "find_row ?rows' user_id' (CartItem.product_id item) = None"
      by (rule find_row_filter_out)
    have cart: "fst (get_cart user_id' (get_db ?rows' lg) current_user) =
                  Inr (map to_CartItem (filter (where_user user_id') ?rows'))" for lg
      using assms(1) by (simp add: get_cart_def session_defs)
    have notin: "CartItem.product_id item \<notin>
                   CartItem.product_id ` set (map to_CartItem (filter (where_user user_id') ?rows'))"
      by (auto simp: to_CartItem_def where_user_def where_user_product_def)
    show "stored (update_cart user_id' item (get_db rows ilog) current_user) = ?rows'
          \<and> find_row (stored (update_cart user_id' item (get_db rows ilog) current_user))
                user_id' (CartItem.product_id item) = None
          \<and> (\<exists>cart.
                fst (get_cart user_id'
                       (get_db (stored (update_cart user_id' item (get_db rows ilog) current_user))
                               (logged (update_cart user_id' item (get_db rows ilog) current_user)))
                       current_user) = Inr cart
              \<and> CartItem.product_id item \<notin> CartItem.product_id ` set cart)"
      unfolding st using fr cart notin by blast
  qed
  from ok set del show ?thesis by blast
qed

theorem update_cart_sets_or_deletes_witness:
  "User.user_id \<lparr>User.user_id = ''alice''\<rparr> = ''alice''
   \<and> unique_keys [\<lparr>CartItemDB.user_id = ''alice'', product_id = ''sku1'', quantity = 5\<rparr>]
   \<and> find_row [\<lparr>CartItemDB.user_id = ''alice'', product_id = ''sku1'', quantity = 5\<rparr>]
        ''alice'' ''sku1'' =
      Some \<lparr>CartItemDB.user_id = ''alice'', product_id = ''sku1'', quantity = 5\<rparr>
   \<and> (0::int) < 3
   \<and> stored (update_cart ''alice''
        \<lparr>CartItem.user_id = ''alice'', product_id = ''sku1'', quantity = Some 3\<rparr>
        (get_db [\<lparr>CartItemDB.user_id = ''alice'', product_id = ''sku1'', quantity = 5\<rparr>] [])
        \<lparr>User.user_id = ''alice''\<rparr>) =
      [\<lparr>CartItemDB.user_id = ''alice'', product_id = ''sku1'', quantity = 3\<rparr>]
   \<and> (0::int) \<le> 0
   \<and> stored (update_cart ''alice''
        \<lparr>CartItem.user_id = ''alice'', product_id = ''sku1'', quantity = Some 0\<rparr>
        (get_db [\<lparr>CartItemDB.user_id = ''alice'', product_id = ''sku1'', quantity = 5\<rparr>] [])
        \<lparr>User.user_id = ''alice''\<rparr>) = []"
proof -
  let ?alice = "\<lparr>User.user_id = ''alice''\<rparr>"
  let ?row = "\<lparr>CartItemDB.user_id = ''alice'', product_id = ''sku1'', quantity = 5\<rparr>"
  let ?to3 = "\<lparr>CartItem.user_id = ''alice'', product_id = ''sku1'', quantity = Some 3\<rparr>"
  let ?to0 = "\<lparr>CartItem.user_id = ''alice'', product_id = ''sku1'', quantity = Some 0\<rparr>"
  have a: "User.user_id ?alice = ''alice''" by simp
  have u: "unique_keys [?row]" by (simp add: unique_keys_def)
  have f3: "find_row [?row] ''alice'' (CartItem.product_id ?to3) = Some ?row"
    by (simp add: find_row_def where_user_product_def)
  have f0: "find_row [?row] ''alice'' (CartItem.product_id ?to0) = Some ?row"
    by (simp add: find_row_def where_user_product_def)
  have q3: "CartItem.quantity ?to3 = Some 3" by simp
  have q0: "CartItem.quantity ?to0 = Some 0" by simp
  show ?thesis
    using a u f3
      update_cart_sets_or_deletes [OF a u f3 q3, of "[]"]
      update_cart_sets_or_deletes [OF a u f0 q0, of "[]"]
    by (simp add: where_user_product_def)
qed

text \<open>
  Claim C6. For the owner of the cart, when the table has no row of the path's user and
  the item's product, \<^verbatim>\<open>update_cart\<close> ends with the 404 \<^verbatim>\<open>HTTPException\<close>, whatever the
  item's quantity; the stored table, the pending view and the interaction log are
  unchanged, and the only thing issued is the select (no commit).
\<close>

theorem update_cart_not_found:
  assumes "User.user_id current_user = user_id'"
    and "find_row rows user_id' (CartItem.product_id item) = None"
  shows "fst (update_cart user_id' item (get_db rows ilog) current_user) =
           Inl (HTTPException HTTP_404_NOT_FOUND ''Item not found in cart'')
       \<and> stored (update_cart user_id' item (get_db rows ilog) current_user) = rows
       \<and> pending (snd (update_cart user_id' item (get_db rows ilog) current_user)) = rows
       \<and> logged (update_cart user_id' item (get_db rows ilog) current_user) = ilog
       \<and> calls (snd (update_cart user_id' item (get_db rows ilog) current_user)) = [Execute_select]"
  using assms(1) filter_absent [OF assms(2)]
  by (simp add: update_cart_def session_defs)

theorem update_cart_not_found_witness:
  "User.user_id \<lparr>User.user_id = ''alice''\<rparr> = ''alice''
   \<and> find_row [\<lparr>CartItemDB.user_id = ''bob'', product_id = ''sku1'', quantity = 5\<rparr>]
        ''alice'' ''sku1'' = None
   \<and> update_cart ''alice''
        \<lparr>CartItem.user_id = ''alice'', product_id = ''sku1'', quantity = Some 3\<rparr>
        (get_db [\<lparr>CartItemDB.user_id = ''bob'', product_id = ''sku1'', quantity = 5\<rparr>] [])
        \<lparr>User.user_id = ''alice''\<rparr> =
      (Inl (HTTPException HTTP_404_NOT_FOUND ''Item not found in cart''),
       \<lparr>committed = [\<lparr>CartItemDB.user_id = ''bob'', product_id = ''sku1'', quantity = 5\<rparr>],
        pending = [\<lparr>CartItemDB.user_id = ''bob'', product_id = ''sku1'', quantity = 5\<rparr>],
        interactions = [], calls = [Execute_select]\<rparr>)"
proof -
  let ?alice = "\<lparr>User.user_id = ''alice''\<rparr>"
  let ?row = "\<lparr>CartItemDB.user_id = ''bob'', product_id = ''sku1'', quantity = 5\<rparr>"
  let ?item = "\<lparr>CartItem.user_id = ''alice'', product_id = ''sku1'', quantity = Some 3\<rparr>"
  have a: "User.user_id ?alice = ''alice''" by simp
  have f: "find_row [?row] ''alice'' (CartItem.product_id ?item) = None"
    by (simp add: find_row_def where_user_product_def)
  show ?thesis
    using a f update_cart_not_found [OF a f, of "[]"]
    by (simp add: stored_def logged_def prod_eq_iff AsyncSession.equality)
qed

section \<open>Removing from a cart\<close>

text \<open>
  Past the ownership check \<^verbatim>\<open>remove_from_cart\<close> always ends with \<^verbatim>\<open>NameError\<close> and leaves
  the session as it was.
\<close>

lemma remove_from_cart_raises:
  assumes "User.user_id current_user = user_id'"
  shows "remove_from_cart user_id' item db current_user = (Inl (NameError ''delete''), db)"
  using assms by (simp add: remove_from_cart_def module_names_def)

text \<open>
  Claim C3. The claim asks that \<^verbatim>\<open>remove_from_cart\<close> deletes the existing row, commits
  and returns no content, and ends with the 404 when the row is absent. The handler as
  written does neither: for the owner of a cart holding the row it ends with
  \<^verbatim>\<open>NameError\<close> and the row stays stored, and for an absent row it ends with \<^verbatim>\<open>NameError\<close>,
  not with the 404.
\<close>

theorem remove_from_cart_keeps_row:
  "remove_from_cart ''alice''
     \<lparr>CartItem.user_id = ''alice'', product_id = ''sku1'', quantity = Some 1\<rparr>
     (get_db [\<lparr>CartItemDB.user_id = ''alice'', product_id = ''sku1'', quantity = 3\<rparr>] [])
     \<lparr>User.user_id = ''alice''\<rparr> =
   (Inl (NameError ''delete''),
    get_db [\<lparr>CartItemDB.user_id = ''alice'', product_id = ''sku1'', quantity = 3\<rparr>] [])
   \<and> remove_from_cart ''alice''
     \<lparr>CartItem.user_id = ''alice'', product_id = ''sku1'', quantity = Some 1\<rparr>
     (get_db [] []) \<lparr>User.user_id = ''alice''\<rparr> =
   (Inl (NameError ''delete''), get_db [] [])"
  by (simp add: remove_from_cart_def module_names_def)

section \<open>Quantities of stored rows\<close>

text \<open>
  \<^verbatim>\<open>update_cart\<close> keeps every stored quantity at 1 or more, for every request.
\<close>

lemma update_cart_keeps_positive_quantities:
  assumes "positive_quantities rows"
  shows "positive_quantities (stored (update_cart user_id' item (get_db rows ilog) current_user))"
proof (cases "User.user_id current_user = user_id'")
  case False
  with assms show ?thesis by (simp add: update_cart_def session_defs)
next
  case True
  show ?thesis
  proof (cases "scalar_one_or_none
      (filter (where_user_product user_id' (CartItem.product_id item)) rows)")
    case (Inl e)
    with True assms show ?thesis by (simp add: update_cart_def session_defs)
  next
    case (Inr found)
    show ?thesis
    proof (cases found)
      case None
      with Inr True assms show ?thesis by (simp add: update_cart_def session_defs)
    next
      case (Some existing_item)
      show ?thesis
      proof (cases "CartItem.quantity item")
        case None
        with Some Inr True assms show ?thesis by (simp add: update_cart_def session_defs)
      next
        case (Some q)
        with \<open>found = Some existing_item\<close> Inr True assms show ?thesis
          by (simp add: update_cart_def session_defs positive_map_set positive_filter)
      qed
    qed
  qed
qed

text \<open>
  \<^verbatim>\<open>add_to_cart\<close> keeps every stored quantity at 1 or more when the item's quantity is
  missing or not negative.
\<close>

lemma add_to_cart_keeps_positive_quantities:
  assumes "positive_quantities rows"
    and "CartItem.quantity item = None \<or> (\<exists>n. CartItem.quantity item = Some n \<and> 0 \<le> n)"
  shows "positive_quantities (stored (add_to_cart user_id' item (get_db rows ilog) current_user))"
proof -
  have q: "1 \<le> or_1 (CartItem.quantity item)"
    using assms(2) by (auto simp: or_1_def)
  show ?thesis
  proof (cases "User.user_id current_user = user_id'")
    case False
    with assms show ?thesis by (simp add: add_to_cart_def session_defs)
  next
    case True
    show ?thesis
    proof (cases "scalar_one_or_none
        (filter (where_user_product user_id' (CartItem.product_id item)) rows)")
      case (Inl e)
      with True assms show ?thesis by (simp add: add_to_cart_def session_defs Let_def)
    next
      case (Inr found)
      show ?thesis
      proof (cases found)
        case None
        with Inr True assms(1) q show ?thesis
          by (simp add: add_to_cart_def session_defs Let_def positive_quantities_def)
      next
        case (Some existing_item)
        with Inr have "filter (where_user_product user_id' (CartItem.product_id item)) rows
            = [existing_item]"
          by (cases "filter (where_user_product user_id' (CartItem.product_id item)) rows"
                rule: scalar_one_or_none.cases) simp_all
        then have "existing_item \<in> set rows"
          by (metis filter_is_subset list.set_intros(1) subsetD)
        with assms(1) have "1 \<le> CartItemDB.quantity existing_item"
          by (simp add: positive_quantities_def list_all_iff)
        with q have "1 \<le> CartItemDB.quantity existing_item + or_1 (CartItem.quantity item)"
          by simp
        with Some Inr True assms(1) show ?thesis
          by (simp add: add_to_cart_def session_defs Let_def positive_map_set)
      qed
    qed
  qed
qed

text \<open>
  Claim C2. The claim asks that no handler leaves a stored row with a quantity of 0 or
  less. \<^verbatim>\<open>add_to_cart\<close> does, for a negative quantity: on the empty table a quantity of
  -5 stores a row with quantity -5, and on a row with quantity 2 a quantity of -2
  stores quantity 0. \<^verbatim>\<open>item.quantity or 1\<close> replaces only a missing quantity and 0.
\<close>

theorem add_to_cart_negative_quantity:
  "fst (add_to_cart ''alice''
     \<lparr>CartItem.user_id = ''alice'', product_id = ''sku1'', quantity = Some (- 5)\<rparr>
     (get_db [] []) \<lparr>User.user_id = ''alice''\<rparr>) = Inr ()
   \<and> stored (add_to_cart ''alice''
     \<lparr>CartItem.user_id = ''alice'', product_id = ''sku1'', quantity = Some (- 5)\<rparr>
     (get_db [] []) \<lparr>User.user_id = ''alice''\<rparr>) =
   [\<lparr>CartItemDB.user_id = ''alice'', product_id = ''sku1'', quantity = - 5\<rparr>]
   \<and> positive_quantities [\<lparr>CartItemDB.user_id = ''alice'', product_id = ''sku1'', quantity = 2\<rparr>]
   \<and> stored (add_to_cart ''alice''
     \<lparr>CartItem.user_id = ''alice'', product_id = ''sku1'', quantity = Some (- 2)\<rparr>
     (get_db [\<lparr>CartItemDB.user_id = ''alice'', product_id = ''sku1'', quantity = 2\<rparr>] [])
     \<lparr>User.user_id = ''alice''\<rparr>) =
   [\<lparr>CartItemDB.user_id = ''alice'', product_id = ''sku1'', quantity = 0\<rparr>]
   \<and> \<not> positive_quantities
        [\<lparr>CartItemDB.user_id = ''alice'', product_id = ''sku1'', quantity = - 5\<rparr>]
   \<and> \<not> positive_quantities
        [\<lparr>CartItemDB.user_id = ''alice'', product_id = ''sku1'', quantity = 0\<rparr>]"
  by (simp add: add_to_cart_def session_defs Let_def where_user_product_def same_row_def
        or_1_def positive_quantities_def)

section \<open>The interaction log\<close>

text \<open>
  Claim C10. \<^verbatim>\<open>get_cart\<close>, \<^verbatim>\<open>update_cart\<close> and \<^verbatim>\<open>remove_from_cart\<close> leave the interaction
  log as it was, for every request and on every path (success, 403, 404 or another
  exception). \<^verbatim>\<open>add_to_cart\<close> leaves it as it was on the 403 and appends its one entry
  on every path past the ownership check.
\<close>

theorem only_add_to_cart_logs:
  "logged (get_cart user_id' db current_user) = interactions db
   \<and> logged (update_cart user_id' item db current_user) = interactions db
   \<and> logged (remove_from_cart user_id' item db current_user) = interactions db
   \<and> logged (add_to_cart user_id' item db current_user) =
       (if User.user_id current_user = user_id'
        then interactions db @
               [\<lparr>Interaction.user_id = CartItem.user_id item, item_id = CartItem.product_id item,
                 interaction_type = InteractionType_CART_value\<rparr>]
        else interactions db)"
proof -
  have g: "logged (get_cart user_id' db current_user) = interactions db"
    by (simp add: get_cart_def session_defs)
  have u: "logged (update_cart user_id' item db current_user) = interactions db"
    by (simp add: update_cart_def session_defs split: sum.splits option.splits)
  have r: "logged (remove_from_cart user_id' item db current_user) = interactions db"
    by (simp add: remove_from_cart_def session_defs)
  have a: "logged (add_to_cart user_id' item db current_user) =
       (if User.user_id current_user = user_id'
        then interactions db @
               [\<lparr>Interaction.user_id = CartItem.user_id item, item_id = CartItem.product_id item,
                 interaction_type = InteractionType_CART_value\<rparr>]
        else interactions db)"
    by (simp add: add_to_cart_def session_defs Let_def split: sum.splits option.splits)
  from g u r a show ?thesis by blast
qed

theorem only_add_to_cart_logs_witness:
  "logged (update_cart ''alice''
        \<lparr>CartItem.user_id = ''alice'', product_id = ''sku1'', quantity = Some 0\<rparr>
        (get_db [\<lparr>CartItemDB.user_id = ''alice'', product_id = ''sku1'', quantity = 5\<rparr>] [])
        \<lparr>User.user_id = ''alice''\<rparr>) = []
   \<and> logged (add_to_cart ''alice''
        \<lparr>CartItem.user_id = ''alice'', product_id = ''sku1'', quantity = Some 1\<rparr>
        (get_db [] []) \<lparr>User.user_id = ''mallory''\<rparr>) = []
   \<and> logged (add_to_cart ''alice''
        \<lparr>CartItem.user_id = ''alice'', product_id = ''sku1'', quantity = Some 1\<rparr>
        (get_db [] []) \<lparr>User.user_id = ''alice''\<rparr>) =
      [\<lparr>Interaction.user_id = ''alice'', item_id = ''sku1'',
        interaction_type = InteractionType_CART_value\<rparr>]"
  using
    only_add_to_cart_logs [of "''alice''"
      "get_db [\<lparr>CartItemDB.user_id = ''alice'', product_id = ''sku1'', quantity = 5\<rparr>] []"
      "\<lparr>User.user_id = ''alice''\<rparr>"
      "\<lparr>CartItem.user_id = ''alice'', product_id = ''sku1'', quantity = Some 0\<rparr>"]
    only_add_to_cart_logs [of "''alice''" "get_db [] []" "\<lparr>User.user_id = ''mallory''\<rparr>"
      "\<lparr>CartItem.user_id = ''alice'', product_id = ''sku1'', quantity = Some 1\<rparr>"]
    only_add_to_cart_logs [of "''alice''" "get_db [] []" "\<lparr>User.user_id = ''alice''\<rparr>"
      "\<lparr>CartItem.user_id = ''alice'', product_id = ''sku1'', quantity = Some 1\<rparr>"]
  by (simp add: get_db_def)

end
